theory Spec2Isabelle
  imports Complex_Main
begin

section \<open>Python values, exceptions and the remote platform\<close>

text \<open>
  The module \<^verbatim>\<open>civis/io/_databases.py\<close> holds two functions, \<^verbatim>\<open>query_civis\<close> and
  \<^verbatim>\<open>transfer_table\<close>. Both are straight-line sequences of calls on an API client,
  ending in the construction of a \<^verbatim>\<open>PollableResult\<close>. The functions are embedded
  as programs over an explicit state: the state of the outside world (the platform and
  the process), and the list of calls issued through the client so far.

  Credential identifiers are documented as \<^verbatim>\<open>str or int, optional\<close>, database
  references as \<^verbatim>\<open>str or int\<close>; such values are \<open>pyval\<close>s. Truthiness is Python's.
\<close>

datatype pyval = PyNone | PyInt int | PyStr string

fun truthy :: "pyval \<Rightarrow> bool" where
  "truthy PyNone = False"
| "truthy (PyInt n) = (n \<noteq> 0)"
| "truthy (PyStr s) = (s \<noteq> [])"

text \<open>A dict literal with string keys, and the keyword arguments collected by
  \<^verbatim>\<open>**advanced_options\<close>, in insertion order.\<close>

type_synonym pydict = "(string \<times> pyval) list"

text \<open>
  Modelled from the spec: the exception classes are not defined in the module; the
  error kinds are those of the specification's error taxonomy, each carrying the
  diagnostic text of whoever raised it.
\<close>

datatype exn =
    ValidationError string
  | NotFound string
  | RemoteRequestError string
  | UnsupportedOperation string

text \<open>
  Modelled from the spec: the status snapshot returned by a probe carries a state
  (queued, running, succeeded, failed, cancelled) and a payload. The terminal states
  are succeeded, failed and cancelled.
\<close>

datatype job_state = Queued | Running | Succeeded | Failed | Cancelled

record snapshot =
  snap_state :: job_state
  snap_payload :: string

fun terminal_state :: "job_state \<Rightarrow> bool" where
  "terminal_state Queued = False"
| "terminal_state Running = False"
| "terminal_state Succeeded = True"
| "terminal_state Failed = True"
| "terminal_state Cancelled = True"

definition terminal :: "snapshot \<Rightarrow> bool" where
  "terminal snap = terminal_state (snap_state snap)"

text \<open>
  The calls a program can issue through the client, with their arguments. Reading the
  attribute \<^verbatim>\<open>client.default_credential\<close> is recorded too, and so is the wait
  between two probes of a blocking \<^verbatim>\<open>result\<close>.
\<close>

datatype call =
    GetDatabaseId pyval
  | DefaultCredential
  | QueriesPost int string int pyval
  | QueriesGet int
  | ImportsPost string string bool pydict pydict
  | ImportsPostSyncs int pydict pydict pydict
  | ImportsPostRuns int
  | ImportsGetFilesRuns int int
  | Sleep real

text \<open>The submission calls: those that create or start remote work.\<close>

fun is_submission :: "call \<Rightarrow> bool" where
  "is_submission (QueriesPost d q n c) = True"
| "is_submission (ImportsPost n t b s d) = True"
| "is_submission (ImportsPostSyncs i s d a) = True"
| "is_submission (ImportsPostRuns i) = True"
| "is_submission c = False"

text \<open>
  The API client (\<^verbatim>\<open>civis.APIClient\<close>, outside the module) is a set of capabilities over
  the world \<open>'w\<close>. A remote call takes the world, returns either the exception it raises
  or its response, and the world it leaves. A response object is represented by the
  attribute the module reads from it: \<^verbatim>\<open>.id\<close> of the responses of \<^verbatim>\<open>queries.post\<close> and
  \<^verbatim>\<open>imports.post\<close>, \<^verbatim>\<open>.run_id\<close> of the response of \<^verbatim>\<open>imports.post_runs\<close>; the response
  of \<^verbatim>\<open>imports.post_syncs\<close> is discarded by the module. The default credential is a
  configuration value of the client.
\<close>

record 'w client =
  get_database_id :: "pyval \<Rightarrow> 'w \<Rightarrow> (exn + int) \<times> 'w"
  default_credential :: pyval
  queries_post :: "int \<Rightarrow> string \<Rightarrow> int \<Rightarrow> pyval \<Rightarrow> 'w \<Rightarrow> (exn + int) \<times> 'w"
  queries_get :: "int \<Rightarrow> 'w \<Rightarrow> (exn + snapshot) \<times> 'w"
  imports_post :: "string \<Rightarrow> string \<Rightarrow> bool \<Rightarrow> pydict \<Rightarrow> pydict \<Rightarrow> 'w \<Rightarrow> (exn + int) \<times> 'w"
  imports_post_syncs :: "int \<Rightarrow> pydict \<Rightarrow> pydict \<Rightarrow> pydict \<Rightarrow> 'w \<Rightarrow> (exn + unit) \<times> 'w"
  imports_post_runs :: "int \<Rightarrow> 'w \<Rightarrow> (exn + int) \<times> 'w"
  imports_get_files_runs :: "int \<Rightarrow> int \<Rightarrow> 'w \<Rightarrow> (exn + snapshot) \<times> 'w"

text \<open>
  What the module imports: the client constructor, the job-name helper of
  \<^verbatim>\<open>civis._utils\<close> (which draws a random name when none is given, so it reads and
  advances the world) and the default polling interval of \<^verbatim>\<open>civis.polling\<close>. None of
  them is defined in the module; they are parameters of the model.
\<close>

record 'w globals =
  APIClient :: "string option \<Rightarrow> 'w client"
  maybe_get_random_name :: "string option \<Rightarrow> 'w \<Rightarrow> string \<times> 'w"
  DEFAULT_POLLING_INTERVAL :: real

section \<open>Programs\<close>

type_synonym 'w state = "'w \<times> call list"

type_synonym ('w, 'a) prog = "'w state \<Rightarrow> (exn + 'a) \<times> 'w state"

definition returns :: "'a \<Rightarrow> ('w, 'a) prog" where
  "returns x = (\<lambda>s. (Inr x, s))"

text \<open>Sequencing: an exception raised by the first part ends the program there.\<close>

definition and_then :: "('w, 'a) prog \<Rightarrow> ('a \<Rightarrow> ('w, 'b) prog) \<Rightarrow> ('w, 'b) prog" where
  "and_then m f = (\<lambda>s. case m s of (Inl e, s') \<Rightarrow> (Inl e, s') | (Inr x, s') \<Rightarrow> f x s')"

text \<open>A call through the client: it is recorded, whether it returns or raises.\<close>

definition remote :: "call \<Rightarrow> ('w \<Rightarrow> (exn + 'a) \<times> 'w) \<Rightarrow> ('w, 'a) prog" where
  "remote c op = (\<lambda>(w, tr). case op w of (r, w') \<Rightarrow> (r, (w', tr @ [c])))"

definition call_get_database_id :: "'w client \<Rightarrow> pyval \<Rightarrow> ('w, int) prog" where
  "call_get_database_id c database = remote (GetDatabaseId database) (get_database_id c database)"

definition read_default_credential :: "'w client \<Rightarrow> ('w, pyval) prog" where
  "read_default_credential c = remote DefaultCredential (\<lambda>w. (Inr (default_credential c), w))"

definition call_queries_post ::
  "'w client \<Rightarrow> int \<Rightarrow> string \<Rightarrow> int \<Rightarrow> pyval \<Rightarrow> ('w, int) prog" where
  "call_queries_post c database_id sql preview_rows cred =
     remote (QueriesPost database_id sql preview_rows cred)
       (queries_post c database_id sql preview_rows cred)"

definition call_queries_get :: "'w client \<Rightarrow> int \<Rightarrow> ('w, snapshot) prog" where
  "call_queries_get c i = remote (QueriesGet i) (queries_get c i)"

definition call_imports_post ::
  "'w client \<Rightarrow> string \<Rightarrow> string \<Rightarrow> bool \<Rightarrow> pydict \<Rightarrow> pydict \<Rightarrow> ('w, int) prog" where
  "call_imports_post c name sync_type is_outbound source destination =
     remote (ImportsPost name sync_type is_outbound source destination)
       (imports_post c name sync_type is_outbound source destination)"

definition call_imports_post_syncs ::
  "'w client \<Rightarrow> int \<Rightarrow> pydict \<Rightarrow> pydict \<Rightarrow> pydict \<Rightarrow> ('w, unit) prog" where
  "call_imports_post_syncs c i source destination advanced_options =
     remote (ImportsPostSyncs i source destination advanced_options)
       (imports_post_syncs c i source destination advanced_options)"

definition call_imports_post_runs :: "'w client \<Rightarrow> int \<Rightarrow> ('w, int) prog" where
  "call_imports_post_runs c i = remote (ImportsPostRuns i) (imports_post_runs c i)"

definition call_imports_get_files_runs :: "'w client \<Rightarrow> int \<times> int \<Rightarrow> ('w, snapshot) prog" where
  "call_imports_get_files_runs c args =
     remote (ImportsGetFilesRuns (fst args) (snd args))
       (imports_get_files_runs c (fst args) (snd args))"

text \<open>The helper draws on the world but is no call through the client.\<close>

definition call_maybe_get_random_name :: "'w globals \<Rightarrow> string option \<Rightarrow> ('w, string) prog" where
  "call_maybe_get_random_name g job_name =
     (\<lambda>(w, tr). case maybe_get_random_name g job_name w of (n, w') \<Rightarrow> (Inr n, (w', tr)))"

text \<open>Python's \<^verbatim>\<open>a or b\<close>: \<^verbatim>\<open>b\<close> is evaluated only when \<^verbatim>\<open>a\<close> is falsy.\<close>

definition py_or :: "pyval \<Rightarrow> ('w, pyval) prog \<Rightarrow> ('w, pyval) prog" where
  "py_or a b = (if truthy a then returns a else b)"

section \<open>The pollable result\<close>

text \<open>
  Modelled from the spec: the class \<^verbatim>\<open>PollableResult\<close> of \<^verbatim>\<open>civis.polling\<close> is not part
  of the module. It is constructed from a probe, the fixed arguments of the probe and a
  polling interval; it caches the last status it has observed. A fresh future has
  observed nothing.
\<close>

record ('w, 'a) pollable =
  poller :: "'a \<Rightarrow> ('w, snapshot) prog"
  poller_args :: 'a
  polling_interval :: real
  last_status :: "snapshot option"

definition PollableResult ::
  "('a \<Rightarrow> ('w, snapshot) prog) \<Rightarrow> 'a \<Rightarrow> real \<Rightarrow> ('w, 'a) pollable" where
  "PollableResult p args interval =
     \<lparr>poller = p, poller_args = args, polling_interval = interval, last_status = None\<rparr>"

section \<open>The module\<close>

text \<open>
  \<^verbatim>\<open>query_civis(sql, database, api_key=None, credential_id=None, preview_rows=10,
  polling_interval=_DEFAULT_POLLING_INTERVAL)\<close>. A parameter with a default that is not
  \<^verbatim>\<open>None\<close> is an option: \<open>None\<close> when the caller leaves it out.
\<close>

definition query_civis ::
  "'w globals \<Rightarrow> string \<Rightarrow> pyval \<Rightarrow> string option \<Rightarrow> pyval \<Rightarrow> int option \<Rightarrow> real option
    \<Rightarrow> ('w, ('w, int) pollable) prog" where
  "query_civis g sql database api_key credential_id preview_rows_arg polling_interval_arg =
     (let preview_rows = (case preview_rows_arg of None \<Rightarrow> 10 | Some n \<Rightarrow> n);
          interval = (case polling_interval_arg of
                        None \<Rightarrow> DEFAULT_POLLING_INTERVAL g | Some i \<Rightarrow> i);
          client = APIClient g api_key
      in and_then (call_get_database_id client database) (\<lambda>database_id.
         and_then (py_or credential_id (read_default_credential client)) (\<lambda>cred_id.
         and_then (call_queries_post client database_id sql preview_rows cred_id) (\<lambda>resp_id.
         returns (PollableResult (call_queries_get client) resp_id interval)))))"

text \<open>
  \<^verbatim>\<open>transfer_table(source_db, dest_db, source_table, dest_table, job_name=None,
  api_key=None, source_credential_id=None, dest_credential_id=None,
  polling_interval=_DEFAULT_POLLING_INTERVAL, **advanced_options)\<close>.
\<close>

definition transfer_table ::
  "'w globals \<Rightarrow> pyval \<Rightarrow> pyval \<Rightarrow> string \<Rightarrow> string \<Rightarrow> string option \<Rightarrow> string option
    \<Rightarrow> pyval \<Rightarrow> pyval \<Rightarrow> real option \<Rightarrow> pydict \<Rightarrow> ('w, ('w, int \<times> int) pollable) prog" where
  "transfer_table g source_db dest_db source_table dest_table job_name_arg api_key
       source_credential_id dest_credential_id polling_interval_arg advanced_options =
     (let interval = (case polling_interval_arg of
                        None \<Rightarrow> DEFAULT_POLLING_INTERVAL g | Some i \<Rightarrow> i);
          client = APIClient g api_key
      in and_then (py_or source_credential_id (read_default_credential client)) (\<lambda>source_cred_id.
         and_then (py_or dest_credential_id (read_default_credential client)) (\<lambda>dest_cred_id.
         and_then (call_maybe_get_random_name g job_name_arg) (\<lambda>job_name.
         and_then (call_get_database_id client source_db) (\<lambda>source_host.
         let source = [(''remote_host_id'', PyInt source_host),
                       (''credential_id'', source_cred_id)]
         in and_then (call_get_database_id client dest_db) (\<lambda>dest_host.
         let destination = [(''remote_host_id'', PyInt dest_host),
                            (''credential_id'', dest_cred_id)]
         in and_then (call_imports_post client job_name ''Dbsync'' True source destination)
              (\<lambda>job_id.
         and_then (call_imports_post_syncs client job_id [(''path'', PyStr source_table)]
                     [(''path'', PyStr dest_table)] advanced_options) (\<lambda>u.
         and_then (call_imports_post_runs client job_id) (\<lambda>run_id.
         returns (PollableResult (call_imports_get_files_runs client) (job_id, run_id)
                    interval))))))))))"

section \<open>Operations of the pollable result\<close>

text \<open>
  Modelled from the spec: the operations of \<^verbatim>\<open>PollableResult\<close> (\<^verbatim>\<open>civis.polling\<close>, not
  part of the module), as the specification's contract of the Pollable Future gives them.
  The "done" check reads the cached status only. "Poll once" returns the cached snapshot
  when it is terminal, and otherwise invokes the probe once on the fixed arguments and
  caches what it returns; an exception of the probe propagates and leaves the future as
  it was. The blocking "result" polls, and while the snapshot is not terminal waits for
  the polling interval and polls again; it may never return.
\<close>

definition is_done :: "('w, 'a) pollable \<Rightarrow> bool" where
  "is_done fut = (case last_status fut of None \<Rightarrow> False | Some snap \<Rightarrow> terminal snap)"

definition probe_once :: "('w, 'a) pollable \<Rightarrow> ('w, snapshot \<times> ('w, 'a) pollable) prog" where
  "probe_once fut =
     and_then (poller fut (poller_args fut))
       (\<lambda>snap. returns (snap, fut\<lparr>last_status := Some snap\<rparr>))"

definition poll_once :: "('w, 'a) pollable \<Rightarrow> ('w, snapshot \<times> ('w, 'a) pollable) prog" where
  "poll_once fut =
     (case last_status fut of
        None \<Rightarrow> probe_once fut
      | Some snap \<Rightarrow> if terminal snap then returns (snap, fut) else probe_once fut)"

definition sleep :: "real \<Rightarrow> 'w state \<Rightarrow> 'w state" where
  "sleep seconds s = (fst s, snd s @ [Sleep seconds])"

partial_function (option) result ::
  "('w, 'a) pollable \<Rightarrow> 'w state
    \<Rightarrow> ((exn + snapshot \<times> ('w, 'a) pollable) \<times> 'w state) option" where
  "result fut s =
     (case poll_once fut s of
        (Inl e, s') \<Rightarrow> Some (Inl e, s')
      | (Inr (snap, fut'), s') \<Rightarrow>
          if terminal snap then Some (Inr (snap, fut'), s')
          else result fut' (sleep (polling_interval fut') s'))"

text \<open>What a run leaves behind: the calls it issued, and among them the reads of the
  default credential.\<close>

definition calls_of :: "(exn + 'a) \<times> 'w state \<Rightarrow> call list" where
  "calls_of r = snd (snd r)"

definition world_of :: "(exn + 'a) \<times> 'w state \<Rightarrow> 'w" where
  "world_of r = fst (snd r)"

definition credential_reads :: "call list \<Rightarrow> nat" where
  "credential_reads tr = count_list tr DefaultCredential"

text \<open>The credential a call ends up with, and the reads that choosing it costs.\<close>

definition chosen_credential :: "'w client \<Rightarrow> pyval \<Rightarrow> pyval" where
  "chosen_credential c cred = (if truthy cred then cred else default_credential c)"

definition reads_for :: "pyval \<Rightarrow> call list" where
  "reads_for cred = (if truthy cred then [] else [DefaultCredential])"

section \<open>A test double of the platform\<close>

text \<open>
  A small platform to run the module on: the world counts the requests served. It knows
  the databases \<^verbatim>\<open>warehouse\<close> (7) and \<^verbatim>\<open>lake\<close> (8) and any numeric identifier, hands out
  fixed job and run identifiers, and can be told to drop the connection at one of the
  three steps of a transfer.
\<close>

datatype step = CreateJob | ConfigureSync | StartRun

definition stub_resolve :: "pyval \<Rightarrow> nat \<Rightarrow> (exn + int) \<times> nat" where
  "stub_resolve database w =
     (case database of
        PyNone \<Rightarrow> (Inl (NotFound ''None''), Suc w)
      | PyInt n \<Rightarrow> (Inr n, Suc w)
      | PyStr s \<Rightarrow>
          if s = ''warehouse'' then (Inr 7, Suc w)
          else if s = ''lake'' then (Inr 8, Suc w)
          else (Inl (NotFound s), Suc w))"

definition stub_fail :: "step option \<Rightarrow> step \<Rightarrow> 'a \<Rightarrow> nat \<Rightarrow> (exn + 'a) \<times> nat" where
  "stub_fail broken here x w =
     (if broken = Some here then (Inl (RemoteRequestError ''connection reset''), Suc w)
      else (Inr x, Suc w))"

definition stub_client :: "step option \<Rightarrow> nat client" where
  "stub_client broken =
     \<lparr>get_database_id = stub_resolve,
      default_credential = PyInt 42,
      queries_post = (\<lambda>database_id sql preview_rows cred w. (Inr 501, Suc w)),
      queries_get = (\<lambda>i w. (Inr \<lparr>snap_state = (if w < 4 then Queued else Succeeded),
                                   snap_payload = ''rows''\<rparr>, Suc w)),
      imports_post = (\<lambda>name sync_type is_outbound source destination.
                        stub_fail broken CreateJob 601),
      imports_post_syncs = (\<lambda>i source destination advanced_options.
                        stub_fail broken ConfigureSync ()),
      imports_post_runs = (\<lambda>i. stub_fail broken StartRun 901),
      imports_get_files_runs = (\<lambda>job_id run_id w.
                        (Inr \<lparr>snap_state = Succeeded, snap_payload = ''copied''\<rparr>, Suc w))\<rparr>"

definition stub_globals :: "step option \<Rightarrow> nat globals" where
  "stub_globals broken =
     \<lparr>APIClient = (\<lambda>api_key. stub_client broken),
      maybe_get_random_name = (\<lambda>job_name w.
         case job_name of None \<Rightarrow> (''4f1c9e'', w) | Some n \<Rightarrow> (n, w)),
      DEFAULT_POLLING_INTERVAL = 15\<rparr>"

lemmas stub_defs = stub_globals_def stub_client_def stub_resolve_def stub_fail_def

section \<open>Running the programs\<close>

lemma and_then_Inr: "m s = (Inr x, s') \<Longrightarrow> and_then m f s = f x s'"
  by (simp add: and_then_def)

lemma and_then_Inl: "m s = (Inl e, s') \<Longrightarrow> and_then m f s = (Inl e, s')"
  by (simp add: and_then_def)

lemma remote_run: "op w = (r, w') \<Longrightarrow> remote c op (w, tr) = (r, (w', tr @ [c]))"
  by (simp add: remote_def)

lemma py_or_run:
  "py_or cred (read_default_credential c) (w, tr) =
     (Inr (chosen_credential c cred), (w, tr @ reads_for cred))"
  by (simp add: py_or_def read_default_credential_def remote_def returns_def
      chosen_credential_def reads_for_def)

lemma query_civis_run:
  assumes "get_database_id (APIClient g api_key) database w = (Inr dbid, w1)"
  shows "query_civis g sql database api_key cred pr ival (w, tr) =
     (let c = APIClient g api_key;
          n = (case pr of None \<Rightarrow> 10 | Some n \<Rightarrow> n);
          tr1 = tr @ [GetDatabaseId database] @ reads_for cred
                  @ [QueriesPost dbid sql n (chosen_credential c cred)]
      in case queries_post c dbid sql n (chosen_credential c cred) w1 of
           (Inl e, w2) \<Rightarrow> (Inl e, (w2, tr1))
         | (Inr rid, w2) \<Rightarrow>
             (Inr (PollableResult (call_queries_get c) rid
                (case ival of None \<Rightarrow> DEFAULT_POLLING_INTERVAL g | Some i \<Rightarrow> i)), (w2, tr1)))"
  using assms
  by (simp add: query_civis_def Let_def and_then_def call_get_database_id_def remote_def
      py_or_run call_queries_post_def returns_def split: prod.splits sum.splits)

lemma query_civis_unresolved:
  assumes "get_database_id (APIClient g api_key) database w = (Inl e, w1)"
  shows "query_civis g sql database api_key cred pr ival (w, tr) =
           (Inl e, (w1, tr @ [GetDatabaseId database]))"
  using assms
  by (simp add: query_civis_def Let_def and_then_def call_get_database_id_def remote_def)

lemma name_run:
  "maybe_get_random_name g jn w = (name, w1) \<Longrightarrow>
     call_maybe_get_random_name g jn (w, tr) = (Inr name, (w1, tr))"
  by (simp add: call_maybe_get_random_name_def)

lemma transfer_table_run:
  assumes "maybe_get_random_name g jn w = (name, w1)"
    and "get_database_id (APIClient g api_key) source_db w1 = (Inr sid, w2)"
    and "get_database_id (APIClient g api_key) dest_db w2 = (Inr did, w3)"
  shows "transfer_table g source_db dest_db source_table dest_table jn api_key scred dcred
           ival ao (w, tr) =
     (let c = APIClient g api_key;
          source = [(''remote_host_id'', PyInt sid),
                    (''credential_id'', chosen_credential c scred)];
          destination = [(''remote_host_id'', PyInt did),
                         (''credential_id'', chosen_credential c dcred)];
          tr0 = tr @ reads_for scred @ reads_for dcred
                  @ [GetDatabaseId source_db, GetDatabaseId dest_db];
          post = ImportsPost name ''Dbsync'' True source destination
      in case imports_post c name ''Dbsync'' True source destination w3 of
           (Inl e, w4) \<Rightarrow> (Inl e, (w4, tr0 @ [post]))
         | (Inr job_id, w4) \<Rightarrow>
             (let syncs = ImportsPostSyncs job_id [(''path'', PyStr source_table)]
                            [(''path'', PyStr dest_table)] ao
              in case imports_post_syncs c job_id [(''path'', PyStr source_table)]
                        [(''path'', PyStr dest_table)] ao w4 of
                   (Inl e, w5) \<Rightarrow> (Inl e, (w5, tr0 @ [post, syncs]))
                 | (Inr u, w5) \<Rightarrow>
                     (case imports_post_runs c job_id w5 of
                        (Inl e, w6) \<Rightarrow>
                          (Inl e, (w6, tr0 @ [post, syncs, ImportsPostRuns job_id]))
                      | (Inr run_id, w6) \<Rightarrow>
                          (Inr (PollableResult (call_imports_get_files_runs c)
                                  (job_id, run_id)
                                  (case ival of None \<Rightarrow> DEFAULT_POLLING_INTERVAL g
                                   | Some i \<Rightarrow> i)),
                           (w6, tr0 @ [post, syncs, ImportsPostRuns job_id])))))"
  using assms
  by (simp add: transfer_table_def Let_def and_then_def py_or_run name_run
      call_get_database_id_def call_imports_post_def call_imports_post_syncs_def
      call_imports_post_runs_def remote_def returns_def split: prod.splits sum.splits)

lemma transfer_table_source_unresolved:
  assumes "maybe_get_random_name g jn w = (name, w1)"
    and "get_database_id (APIClient g api_key) source_db w1 = (Inl e, w2)"
  shows "transfer_table g source_db dest_db source_table dest_table jn api_key scred dcred
           ival ao (w, tr) =
     (Inl e, (w2, tr @ reads_for scred @ reads_for dcred @ [GetDatabaseId source_db]))"
  using assms
  by (simp add: transfer_table_def Let_def and_then_def py_or_run name_run
      call_get_database_id_def remote_def)

lemma transfer_table_dest_unresolved:
  assumes "maybe_get_random_name g jn w = (name, w1)"
    and "get_database_id (APIClient g api_key) source_db w1 = (Inr sid, w2)"
    and "get_database_id (APIClient g api_key) dest_db w2 = (Inl e, w3)"
  shows "transfer_table g source_db dest_db source_table dest_table jn api_key scred dcred
           ival ao (w, tr) =
     (Inl e, (w3, tr @ reads_for scred @ reads_for dcred
                @ [GetDatabaseId source_db, GetDatabaseId dest_db]))"
  using assms
  by (simp add: transfer_table_def Let_def and_then_def py_or_run name_run
      call_get_database_id_def remote_def)

section \<open>Properties of \<^verbatim>\<open>query_civis\<close>\<close>

text \<open>
  C10. When \<^verbatim>\<open>preview_rows\<close> is not supplied, \<^verbatim>\<open>query_civis\<close> submits the query
  with a preview-row count of exactly 10: once the database has resolved, the one
  submission call of the run is \<^verbatim>\<open>queries.post\<close> with 10 in the preview-row position.
\<close>

theorem query_civis_default_preview_rows:
  "get_database_id (APIClient g api_key) database w = (Inr dbid, w1) \<Longrightarrow>
   filter is_submission
     (calls_of (query_civis g sql database api_key credential_id None ival (w, []))) =
   [QueriesPost dbid sql 10 (chosen_credential (APIClient g api_key) credential_id)]"
  by (simp add: query_civis_run calls_of_def Let_def reads_for_def split: prod.splits sum.splits)

theorem query_civis_default_preview_rows_witness:
  "get_database_id (APIClient (stub_globals None) None) (PyStr ''warehouse'') 0 = (Inr 7, 1)
   \<and> filter is_submission
       (calls_of (query_civis (stub_globals None) ''SELECT 1'' (PyStr ''warehouse'') None
          PyNone None None (0, []))) =
     [QueriesPost 7 ''SELECT 1'' 10 (PyInt 42)]"
proof -
  have h: "get_database_id (APIClient (stub_globals None) None) (PyStr ''warehouse'') 0
             = (Inr 7, 1)"
    by (simp add: stub_defs)
  from query_civis_default_preview_rows [OF h, of "''SELECT 1''" PyNone None] h
  show ?thesis by (simp add: chosen_credential_def stub_defs)
qed

text \<open>
  C1, as stated, fails: with \<^verbatim>\<open>preview_rows = 101\<close> the call raises nothing on the
  test platform, and it has resolved the database, read the default credential and
  posted the query with 101.
\<close>

theorem preview_rows_above_limit_counterexample:
  "\<not> isl (fst (query_civis (stub_globals None) ''SELECT 1'' (PyStr ''warehouse'') None
            PyNone (Some 101) None (0, [])))
   \<and> calls_of (query_civis (stub_globals None) ''SELECT 1'' (PyStr ''warehouse'') None
        PyNone (Some 101) None (0, [])) =
     [GetDatabaseId (PyStr ''warehouse''), DefaultCredential,
      QueriesPost 7 ''SELECT 1'' 101 (PyInt 42)]"
proof -
  have h: "get_database_id (APIClient (stub_globals None) None) (PyStr ''warehouse'') 0
             = (Inr 7, 1)"
    by (simp add: stub_defs)
  show ?thesis
    unfolding query_civis_run [OF h]
    by (simp add: calls_of_def reads_for_def chosen_credential_def stub_defs)
qed

text \<open>
  C1, amended. \<^verbatim>\<open>query_civis\<close> does not check \<^verbatim>\<open>preview_rows\<close>: for every value,
  also above 100, once the database has resolved the calls issued are the resolution,
  the read of the default credential when no credential is given, and \<^verbatim>\<open>queries.post\<close>
  with the value unchanged; the call fails exactly when that \<^verbatim>\<open>queries.post\<close> fails.
\<close>

theorem query_civis_forwards_preview_rows:
  assumes "get_database_id (APIClient g api_key) database w = (Inr dbid, w1)"
  shows "calls_of (query_civis g sql database api_key credential_id (Some n) ival (w, [])) =
           GetDatabaseId database # reads_for credential_id
             @ [QueriesPost dbid sql n (chosen_credential (APIClient g api_key) credential_id)]
         \<and> isl (fst (query_civis g sql database api_key credential_id (Some n) ival (w, []))) =
           isl (fst (queries_post (APIClient g api_key) dbid sql n
                  (chosen_credential (APIClient g api_key) credential_id) w1))"
  using assms
  by (simp add: query_civis_run calls_of_def Let_def split: prod.splits sum.splits)

theorem query_civis_forwards_preview_rows_witness:
  "get_database_id (APIClient (stub_globals None) None) (PyStr ''warehouse'') 0 = (Inr 7, 1)
   \<and> calls_of (query_civis (stub_globals None) ''SELECT 1'' (PyStr ''warehouse'') None
        (PyInt 5) (Some 101) None (0, [])) =
     [GetDatabaseId (PyStr ''warehouse''), QueriesPost 7 ''SELECT 1'' 101 (PyInt 5)]
   \<and> \<not> isl (fst (query_civis (stub_globals None) ''SELECT 1'' (PyStr ''warehouse'') None
        (PyInt 5) (Some 101) None (0, [])))"
proof -
  have h: "get_database_id (APIClient (stub_globals None) None) (PyStr ''warehouse'') 0
             = (Inr 7, 1)"
    by (simp add: stub_defs)
  from query_civis_forwards_preview_rows [OF h, of "''SELECT 1''" "PyInt 5" 101 None] h
  show ?thesis by (simp add: chosen_credential_def reads_for_def stub_defs)
qed

text \<open>
  C6. Every successful call of \<^verbatim>\<open>query_civis\<close> has made exactly one submission call,
  the \<^verbatim>\<open>queries.post\<close> that creates the query job, and returns the pollable result built
  from \<^verbatim>\<open>client.queries.get\<close> and the identifier of that job's response: its probe,
  applied to its fixed arguments, is the status call on that identifier.
\<close>

theorem query_civis_success:
  assumes ok: "query_civis g sql database api_key credential_id preview_rows_arg ival (w, [])
                 = (Inr fut, (w', tr))"
  shows "\<exists>dbid rid w1.
           queries_post (APIClient g api_key) dbid sql
               (case preview_rows_arg of None \<Rightarrow> 10 | Some n \<Rightarrow> n)
               (chosen_credential (APIClient g api_key) credential_id) w1 = (Inr rid, w')
         \<and> filter is_submission tr =
               [QueriesPost dbid sql (case preview_rows_arg of None \<Rightarrow> 10 | Some n \<Rightarrow> n)
                  (chosen_credential (APIClient g api_key) credential_id)]
         \<and> fut = PollableResult (call_queries_get (APIClient g api_key)) rid
                   (case ival of None \<Rightarrow> DEFAULT_POLLING_INTERVAL g | Some i \<Rightarrow> i)
         \<and> poller fut (poller_args fut) = call_queries_get (APIClient g api_key) rid"
proof -
  obtain r w1 where res: "get_database_id (APIClient g api_key) database w = (r, w1)"
    by (cases "get_database_id (APIClient g api_key) database w")
  show ?thesis
  proof (cases r)
    case (Inl e)
    with res ok show ?thesis by (simp add: query_civis_unresolved)
  next
    case (Inr dbid)
    with res have h: "get_database_id (APIClient g api_key) database w = (Inr dbid, w1)"
      by simp
    obtain q w2 where post: "queries_post (APIClient g api_key) dbid sql
               (case preview_rows_arg of None \<Rightarrow> 10 | Some n \<Rightarrow> n)
               (chosen_credential (APIClient g api_key) credential_id) w1 = (q, w2)"
      by (cases "queries_post (APIClient g api_key) dbid sql
               (case preview_rows_arg of None \<Rightarrow> 10 | Some n \<Rightarrow> n)
               (chosen_credential (APIClient g api_key) credential_id) w1")
    show ?thesis
    proof (cases q)
      case (Inl e)
      with ok post show ?thesis by (simp add: query_civis_run [OF h] Let_def)
    next
      case (Inr rid)
      with ok post have "w' = w2"
        and "tr = [GetDatabaseId database] @ reads_for credential_id
                  @ [QueriesPost dbid sql (case preview_rows_arg of None \<Rightarrow> 10 | Some n \<Rightarrow> n)
                       (chosen_credential (APIClient g api_key) credential_id)]"
        and "fut = PollableResult (call_queries_get (APIClient g api_key)) rid
                   (case ival of None \<Rightarrow> DEFAULT_POLLING_INTERVAL g | Some i \<Rightarrow> i)"
        by (simp_all add: query_civis_run [OF h] Let_def)
      with post Inr show ?thesis
        by (intro exI [of _ dbid] exI [of _ rid] exI [of _ w1])
           (simp add: reads_for_def PollableResult_def)
    qed
  qed
qed

theorem query_civis_success_witness:
  "query_civis (stub_globals None) ''SELECT 1'' (PyStr ''warehouse'') None (PyInt 5) None
     (Some 2) (0, [])
   = (Inr (PollableResult (call_queries_get (stub_client None)) 501 2),
      (2, [GetDatabaseId (PyStr ''warehouse''), QueriesPost 7 ''SELECT 1'' 10 (PyInt 5)]))
   \<and> (\<exists>dbid rid w1.
         queries_post (APIClient (stub_globals None) None) dbid ''SELECT 1'' 10
           (chosen_credential (APIClient (stub_globals None) None) (PyInt 5)) w1 = (Inr rid, 2)
       \<and> filter is_submission
           [GetDatabaseId (PyStr ''warehouse''), QueriesPost 7 ''SELECT 1'' 10 (PyInt 5)] =
           [QueriesPost dbid ''SELECT 1'' 10
              (chosen_credential (APIClient (stub_globals None) None) (PyInt 5))]
       \<and> PollableResult (call_queries_get (stub_client None)) 501 2 =
           PollableResult (call_queries_get (APIClient (stub_globals None) None)) rid 2
       \<and> poller (PollableResult (call_queries_get (stub_client None)) 501 2)
           (poller_args (PollableResult (call_queries_get (stub_client None)) 501 2)) =
           call_queries_get (APIClient (stub_globals None) None) rid)"
proof -
  have h: "get_database_id (APIClient (stub_globals None) None) (PyStr ''warehouse'') 0
             = (Inr 7, 1)"
    by (simp add: stub_defs)
  have run: "query_civis (stub_globals None) ''SELECT 1'' (PyStr ''warehouse'') None (PyInt 5)
      None (Some 2) (0, [])
    = (Inr (PollableResult (call_queries_get (stub_client None)) 501 2),
      (2, [GetDatabaseId (PyStr ''warehouse''), QueriesPost 7 ''SELECT 1'' 10 (PyInt 5)]))"
    unfolding query_civis_run [OF h]
    by (simp add: reads_for_def chosen_credential_def stub_defs)
  from query_civis_success [OF run] run show ?thesis
    by (simp only: option.case simp_thms)
qed

lemma stub_name: "maybe_get_random_name (stub_globals b) None 0 = (''4f1c9e'', 0)"
  by (simp add: stub_defs)

lemma stub_source:
  "get_database_id (APIClient (stub_globals b) None) (PyStr ''warehouse'') 0 = (Inr 7, 1)"
  by (simp add: stub_defs)

lemma stub_dest:
  "get_database_id (APIClient (stub_globals b) None) (PyStr ''lake'') 1 = (Inr 8, 2)"
  by (simp add: stub_defs)

lemmas stub_transfer_run = transfer_table_run [OF stub_name stub_source stub_dest]

section \<open>Properties of \<^verbatim>\<open>transfer_table\<close>\<close>

text \<open>
  C3. Once the job name is chosen and both databases have resolved, the submission
  calls of \<^verbatim>\<open>transfer_table\<close> are, in this order, \<^verbatim>\<open>imports.post\<close> (create the job),
  \<^verbatim>\<open>imports.post_syncs\<close> (configure the sync) and \<^verbatim>\<open>imports.post_runs\<close> (start the run).
  When creating the job fails it is the only submission call; when configuring the sync
  fails, the job has been created and the run is never started; in each case the call
  fails and the world is the one the failing call left, no further call having touched
  it. When the sync is configured, the run is started, and the call fails exactly when
  that last call does.
\<close>

theorem transfer_table_steps_in_order:
  assumes "maybe_get_random_name g job_name w = (name, w1)"
    and "get_database_id (APIClient g api_key) source_db w1 = (Inr sid, w2)"
    and "get_database_id (APIClient g api_key) dest_db w2 = (Inr did, w3)"
  shows "let c = APIClient g api_key;
             source = [(''remote_host_id'', PyInt sid),
                       (''credential_id'', chosen_credential c source_credential_id)];
             destination = [(''remote_host_id'', PyInt did),
                            (''credential_id'', chosen_credential c dest_credential_id)];
             src_path = [(''path'', PyStr source_table)];
             dst_path = [(''path'', PyStr dest_table)];
             create_job = ImportsPost name ''Dbsync'' True source destination;
             run = transfer_table g source_db dest_db source_table dest_table job_name api_key
                     source_credential_id dest_credential_id ival advanced_options (w, [])
         in (imports_post c name ''Dbsync'' True source destination w3 = (Inl e1, w4)
               \<longrightarrow> filter is_submission (calls_of run) = [create_job] \<and> world_of run = w4
                   \<and> isl (fst run))
          \<and> (imports_post c name ''Dbsync'' True source destination w3 = (Inr job_id, w4)
               \<and> imports_post_syncs c job_id src_path dst_path advanced_options w4 = (Inl e2, w5)
               \<longrightarrow> filter is_submission (calls_of run) =
                     [create_job, ImportsPostSyncs job_id src_path dst_path advanced_options]
                   \<and> world_of run = w5 \<and> isl (fst run))
          \<and> (imports_post c name ''Dbsync'' True source destination w3 = (Inr job_id, w4)
               \<and> imports_post_syncs c job_id src_path dst_path advanced_options w4 = (Inr u, w5)
               \<longrightarrow> filter is_submission (calls_of run) =
                     [create_job, ImportsPostSyncs job_id src_path dst_path advanced_options,
                      ImportsPostRuns job_id]
                   \<and> world_of run = snd (imports_post_runs c job_id w5)
                   \<and> isl (fst run) = isl (fst (imports_post_runs c job_id w5)))"
  unfolding Let_def transfer_table_run [OF assms] calls_of_def world_of_def
  by (intro conjI impI; (elim conjE)?; simp add: reads_for_def split: prod.splits sum.splits)

theorem transfer_table_steps_in_order_witness:
  "maybe_get_random_name (stub_globals (Some ConfigureSync)) None 0 = (''4f1c9e'', 0)
   \<and> get_database_id (APIClient (stub_globals (Some ConfigureSync)) None) (PyStr ''warehouse'') 0
       = (Inr 7, 1)
   \<and> get_database_id (APIClient (stub_globals (Some ConfigureSync)) None) (PyStr ''lake'') 1
       = (Inr 8, 2)
   \<and> imports_post (APIClient (stub_globals (Some ConfigureSync)) None) ''4f1c9e'' ''Dbsync'' True
         [(''remote_host_id'', PyInt 7), (''credential_id'', PyInt 42)]
         [(''remote_host_id'', PyInt 8), (''credential_id'', PyInt 42)] 2 = (Inr 601, 3)
   \<and> imports_post_syncs (APIClient (stub_globals (Some ConfigureSync)) None) 601
         [(''path'', PyStr ''public.src'')] [(''path'', PyStr ''public.dst'')]
         [(''max_errors'', PyInt 3)] 3 = (Inl (RemoteRequestError ''connection reset''), 4)
   \<and> filter is_submission
         (calls_of (transfer_table (stub_globals (Some ConfigureSync)) (PyStr ''warehouse'')
            (PyStr ''lake'') ''public.src'' ''public.dst'' None None PyNone PyNone None
            [(''max_errors'', PyInt 3)] (0, []))) =
       [ImportsPost ''4f1c9e'' ''Dbsync'' True
          [(''remote_host_id'', PyInt 7), (''credential_id'', PyInt 42)]
          [(''remote_host_id'', PyInt 8), (''credential_id'', PyInt 42)],
        ImportsPostSyncs 601 [(''path'', PyStr ''public.src'')] [(''path'', PyStr ''public.dst'')]
          [(''max_errors'', PyInt 3)]]
   \<and> world_of (transfer_table (stub_globals (Some ConfigureSync)) (PyStr ''warehouse'')
         (PyStr ''lake'') ''public.src'' ''public.dst'' None None PyNone PyNone None
         [(''max_errors'', PyInt 3)] (0, [])) = 4
   \<and> isl (fst (transfer_table (stub_globals (Some ConfigureSync)) (PyStr ''warehouse'')
         (PyStr ''lake'') ''public.src'' ''public.dst'' None None PyNone PyNone None
         [(''max_errors'', PyInt 3)] (0, [])))"
  using transfer_table_steps_in_order [OF stub_name [of "Some ConfigureSync"]
        stub_source [of "Some ConfigureSync"] stub_dest [of "Some ConfigureSync"],
      where source_credential_id = PyNone
        and dest_credential_id = PyNone and source_table = "''public.src''"
        and dest_table = "''public.dst''" and ival = None
        and advanced_options = "[(''max_errors'', PyInt 3)]"
        and ?e1.0 = "RemoteRequestError ''connection reset''" and ?w4.0 = 3 and job_id = 601
        and ?e2.0 = "RemoteRequestError ''connection reset''" and ?w5.0 = 4 and u = "()"]
  by (simp add: Let_def chosen_credential_def stub_defs)

text \<open>
  C4, as stated, fails: on a platform that drops the connection, a failure at the first
  step and a failure at the second step surface as the same exception, the one the
  client raised, with nothing that names the step.
\<close>

theorem transfer_table_step_annotation_counterexample:
  "fst (transfer_table (stub_globals (Some CreateJob)) (PyStr ''warehouse'') (PyStr ''lake'')
          ''public.src'' ''public.dst'' None None PyNone PyNone None [] (0, []))
     = Inl (RemoteRequestError ''connection reset'')
   \<and> filter is_submission
         (calls_of (transfer_table (stub_globals (Some CreateJob)) (PyStr ''warehouse'')
            (PyStr ''lake'') ''public.src'' ''public.dst'' None None PyNone PyNone None []
            (0, []))) =
       [ImportsPost ''4f1c9e'' ''Dbsync'' True
          [(''remote_host_id'', PyInt 7), (''credential_id'', PyInt 42)]
          [(''remote_host_id'', PyInt 8), (''credential_id'', PyInt 42)]]
   \<and> fst (transfer_table (stub_globals (Some ConfigureSync)) (PyStr ''warehouse'')
          (PyStr ''lake'') ''public.src'' ''public.dst'' None None PyNone PyNone None [] (0, []))
     = Inl (RemoteRequestError ''connection reset'')
   \<and> filter is_submission
         (calls_of (transfer_table (stub_globals (Some ConfigureSync)) (PyStr ''warehouse'')
            (PyStr ''lake'') ''public.src'' ''public.dst'' None None PyNone PyNone None []
            (0, []))) =
       [ImportsPost ''4f1c9e'' ''Dbsync'' True
          [(''remote_host_id'', PyInt 7), (''credential_id'', PyInt 42)]
          [(''remote_host_id'', PyInt 8), (''credential_id'', PyInt 42)],
        ImportsPostSyncs 601 [(''path'', PyStr ''public.src'')] [(''path'', PyStr ''public.dst'')]
          []]"
  unfolding stub_transfer_run
  by (simp add: Let_def calls_of_def reads_for_def chosen_credential_def stub_defs)

text \<open>
  C4, amended. When one of the three submission calls of \<^verbatim>\<open>transfer_table\<close> fails, the
  caller gets exactly the exception raised by that client call, unchanged:
  \<^verbatim>\<open>transfer_table\<close> adds no annotation of the failing step.
\<close>

theorem transfer_table_error_unchanged:
  assumes "maybe_get_random_name g job_name w = (name, w1)"
    and "get_database_id (APIClient g api_key) source_db w1 = (Inr sid, w2)"
    and "get_database_id (APIClient g api_key) dest_db w2 = (Inr did, w3)"
  shows "let c = APIClient g api_key;
             source = [(''remote_host_id'', PyInt sid),
                       (''credential_id'', chosen_credential c source_credential_id)];
             destination = [(''remote_host_id'', PyInt did),
                            (''credential_id'', chosen_credential c dest_credential_id)];
             src_path = [(''path'', PyStr source_table)];
             dst_path = [(''path'', PyStr dest_table)];
             run = transfer_table g source_db dest_db source_table dest_table job_name api_key
                     source_credential_id dest_credential_id ival advanced_options (w, [])
         in (imports_post c name ''Dbsync'' True source destination w3 = (Inl e, w4)
               \<longrightarrow> fst run = Inl e)
          \<and> (imports_post c name ''Dbsync'' True source destination w3 = (Inr job_id, w4)
               \<and> imports_post_syncs c job_id src_path dst_path advanced_options w4 = (Inl e, w5)
               \<longrightarrow> fst run = Inl e)
          \<and> (imports_post c name ''Dbsync'' True source destination w3 = (Inr job_id, w4)
               \<and> imports_post_syncs c job_id src_path dst_path advanced_options w4 = (Inr u, w5)
               \<and> imports_post_runs c job_id w5 = (Inl e, w6)
               \<longrightarrow> fst run = Inl e)"
  unfolding Let_def transfer_table_run [OF assms]
  by (intro conjI impI; (elim conjE)?; simp)

theorem transfer_table_error_unchanged_witness:
  "maybe_get_random_name (stub_globals (Some StartRun)) None 0 = (''4f1c9e'', 0)
   \<and> get_database_id (APIClient (stub_globals (Some StartRun)) None) (PyStr ''warehouse'') 0
       = (Inr 7, 1)
   \<and> get_database_id (APIClient (stub_globals (Some StartRun)) None) (PyStr ''lake'') 1
       = (Inr 8, 2)
   \<and> imports_post (APIClient (stub_globals (Some StartRun)) None) ''4f1c9e'' ''Dbsync'' True
         [(''remote_host_id'', PyInt 7), (''credential_id'', PyInt 42)]
         [(''remote_host_id'', PyInt 8), (''credential_id'', PyInt 42)] 2 = (Inr 601, 3)
   \<and> imports_post_syncs (APIClient (stub_globals (Some StartRun)) None) 601
         [(''path'', PyStr ''public.src'')] [(''path'', PyStr ''public.dst'')] [] 3
       = (Inr (), 4)
   \<and> imports_post_runs (APIClient (stub_globals (Some StartRun)) None) 601 4
       = (Inl (RemoteRequestError ''connection reset''), 5)
   \<and> fst (transfer_table (stub_globals (Some StartRun)) (PyStr ''warehouse'') (PyStr ''lake'')
          ''public.src'' ''public.dst'' None None PyNone PyNone None [] (0, []))
     = Inl (RemoteRequestError ''connection reset'')"
  using transfer_table_error_unchanged [OF stub_name [of "Some StartRun"]
        stub_source [of "Some StartRun"] stub_dest [of "Some StartRun"],
      where source_credential_id = PyNone
        and dest_credential_id = PyNone and source_table = "''public.src''"
        and dest_table = "''public.dst''" and ival = None and advanced_options = "[]"
        and e = "RemoteRequestError ''connection reset''" and ?w4.0 = 3 and job_id = 601
        and ?w5.0 = 4 and u = "()" and ?w6.0 = 5]
  by (simp add: Let_def chosen_credential_def stub_defs)

section \<open>Unresolved database references\<close>

text \<open>
  C5. When the resolution of a database reference fails, \<^verbatim>\<open>query_civis\<close> and
  \<^verbatim>\<open>transfer_table\<close> (for the source and for the destination reference) fail with the
  exception of the resolver, \<^verbatim>\<open>NotFound\<close> for an unknown reference, and have issued no
  submission call: no \<^verbatim>\<open>queries.post\<close>, \<^verbatim>\<open>imports.post\<close>, \<^verbatim>\<open>imports.post_syncs\<close> or
  \<^verbatim>\<open>imports.post_runs\<close>.
\<close>

theorem unresolved_database_no_submission:
  "(get_database_id (APIClient g api_key) database w = (Inl e, w1)
      \<longrightarrow> fst (query_civis g sql database api_key credential_id preview_rows_arg ival (w, []))
            = Inl e
        \<and> filter is_submission
            (calls_of (query_civis g sql database api_key credential_id preview_rows_arg ival
               (w, []))) = [])
   \<and> (maybe_get_random_name g job_name v = (name, v1)
      \<and> get_database_id (APIClient g api_key) source_db v1 = (Inl e, v2)
      \<longrightarrow> fst (transfer_table g source_db dest_db source_table dest_table job_name api_key
                 source_credential_id dest_credential_id ival advanced_options (v, [])) = Inl e
        \<and> filter is_submission
            (calls_of (transfer_table g source_db dest_db source_table dest_table job_name
               api_key source_credential_id dest_credential_id ival advanced_options (v, [])))
            = [])
   \<and> (maybe_get_random_name g job_name v = (name, v1)
      \<and> get_database_id (APIClient g api_key) source_db v1 = (Inr sid, v2)
      \<and> get_database_id (APIClient g api_key) dest_db v2 = (Inl e, v3)
      \<longrightarrow> fst (transfer_table g source_db dest_db source_table dest_table job_name api_key
                 source_credential_id dest_credential_id ival advanced_options (v, [])) = Inl e
        \<and> filter is_submission
            (calls_of (transfer_table g source_db dest_db source_table dest_table job_name
               api_key source_credential_id dest_credential_id ival advanced_options (v, [])))
            = [])"
  by (intro conjI impI; (elim conjE)?;
      simp add: query_civis_unresolved transfer_table_source_unresolved
        transfer_table_dest_unresolved calls_of_def reads_for_def)

theorem unresolved_database_no_submission_witness:
  "get_database_id (APIClient (stub_globals None) None) (PyStr ''nonexistent_db'') 0
     = (Inl (NotFound ''nonexistent_db''), 1)
   \<and> fst (query_civis (stub_globals None) ''SELECT 1'' (PyStr ''nonexistent_db'') None PyNone
          None None (0, [])) = Inl (NotFound ''nonexistent_db'')
   \<and> filter is_submission
        (calls_of (query_civis (stub_globals None) ''SELECT 1'' (PyStr ''nonexistent_db'') None
           PyNone None None (0, []))) = []
   \<and> maybe_get_random_name (stub_globals None) None 0 = (''4f1c9e'', 0)
   \<and> fst (transfer_table (stub_globals None) (PyStr ''nonexistent_db'') (PyStr ''lake'')
          ''public.src'' ''public.dst'' None None PyNone PyNone None [] (0, []))
       = Inl (NotFound ''nonexistent_db'')
   \<and> filter is_submission
        (calls_of (transfer_table (stub_globals None) (PyStr ''nonexistent_db'') (PyStr ''lake'')
           ''public.src'' ''public.dst'' None None PyNone PyNone None [] (0, []))) = []
   \<and> get_database_id (APIClient (stub_globals None) None) (PyStr ''warehouse'') 0 = (Inr 7, 1)
   \<and> get_database_id (APIClient (stub_globals None) None) (PyStr ''nonexistent_db'') 1
     = (Inl (NotFound ''nonexistent_db''), 2)
   \<and> fst (transfer_table (stub_globals None) (PyStr ''warehouse'') (PyStr ''nonexistent_db'')
          ''public.src'' ''public.dst'' None None PyNone PyNone None [] (0, []))
       = Inl (NotFound ''nonexistent_db'')
   \<and> filter is_submission
        (calls_of (transfer_table (stub_globals None) (PyStr ''warehouse'')
           (PyStr ''nonexistent_db'') ''public.src'' ''public.dst'' None None PyNone PyNone None
           [] (0, []))) = []"
proof -
  have bad0: "get_database_id (APIClient (stub_globals None) None) (PyStr ''nonexistent_db'') 0
     = (Inl (NotFound ''nonexistent_db''), 1)"
    by (simp add: stub_defs)
  have bad1: "get_database_id (APIClient (stub_globals None) None) (PyStr ''nonexistent_db'') 1
     = (Inl (NotFound ''nonexistent_db''), 2)"
    by (simp add: stub_defs)
  note src = unresolved_database_no_submission [where g = "stub_globals None"
      and api_key = None and database = "PyStr ''nonexistent_db''" and w = 0
      and e = "NotFound ''nonexistent_db''" and ?w1.0 = 1 and sql = "''SELECT 1''"
      and credential_id = PyNone and preview_rows_arg = None and ival = None
      and job_name = None and v = 0 and name = "''4f1c9e''" and ?v1.0 = 0
      and source_db = "PyStr ''nonexistent_db''" and ?v2.0 = 1 and dest_db = "PyStr ''lake''"
      and source_table = "''public.src''" and dest_table = "''public.dst''"
      and source_credential_id = PyNone and dest_credential_id = PyNone
      and advanced_options = "[]"]
  note dst = unresolved_database_no_submission [where g = "stub_globals None"
      and api_key = None and database = "PyStr ''nonexistent_db''" and w = 0
      and e = "NotFound ''nonexistent_db''" and ?w1.0 = 1 and sql = "''SELECT 1''"
      and credential_id = PyNone and preview_rows_arg = None and ival = None
      and job_name = None and v = 0 and name = "''4f1c9e''" and ?v1.0 = 0
      and source_db = "PyStr ''warehouse''" and ?v2.0 = 1 and sid = 7
      and dest_db = "PyStr ''nonexistent_db''" and ?v3.0 = 2
      and source_table = "''public.src''" and dest_table = "''public.dst''"
      and source_credential_id = PyNone and dest_credential_id = PyNone
      and advanced_options = "[]"]
  from src dst bad0 bad1 stub_name [of None] stub_source [of None]
  show ?thesis by simp
qed

section \<open>The calls of a transfer\<close>

lemma transfer_table_calls_shape:
  "\<exists>name sid did job_id rest.
     calls_of (transfer_table g source_db dest_db source_table dest_table job_name api_key
        scred dcred ival ao (w, []))
     = reads_for scred @ reads_for dcred @ GetDatabaseId source_db # rest
   \<and> rest \<in> {[], [GetDatabaseId dest_db],
        [GetDatabaseId dest_db,
         ImportsPost name ''Dbsync'' True
           [(''remote_host_id'', PyInt sid),
            (''credential_id'', chosen_credential (APIClient g api_key) scred)]
           [(''remote_host_id'', PyInt did),
            (''credential_id'', chosen_credential (APIClient g api_key) dcred)]],
        [GetDatabaseId dest_db,
         ImportsPost name ''Dbsync'' True
           [(''remote_host_id'', PyInt sid),
            (''credential_id'', chosen_credential (APIClient g api_key) scred)]
           [(''remote_host_id'', PyInt did),
            (''credential_id'', chosen_credential (APIClient g api_key) dcred)],
         ImportsPostSyncs job_id [(''path'', PyStr source_table)]
           [(''path'', PyStr dest_table)] ao],
        [GetDatabaseId dest_db,
         ImportsPost name ''Dbsync'' True
           [(''remote_host_id'', PyInt sid),
            (''credential_id'', chosen_credential (APIClient g api_key) scred)]
           [(''remote_host_id'', PyInt did),
            (''credential_id'', chosen_credential (APIClient g api_key) dcred)],
         ImportsPostSyncs job_id [(''path'', PyStr source_table)]
           [(''path'', PyStr dest_table)] ao,
         ImportsPostRuns job_id]}"
proof -
  obtain name w1 where n: "maybe_get_random_name g job_name w = (name, w1)"
    by (cases "maybe_get_random_name g job_name w")
  obtain r2 w2 where s: "get_database_id (APIClient g api_key) source_db w1 = (r2, w2)"
    by (cases "get_database_id (APIClient g api_key) source_db w1")
  show ?thesis
  proof (cases r2)
    case (Inl e)
    with s have "get_database_id (APIClient g api_key) source_db w1 = (Inl e, w2)" by simp
    from transfer_table_source_unresolved [OF n this] show ?thesis
      by (simp add: calls_of_def)
  next
    case (Inr sid)
    with s have s': "get_database_id (APIClient g api_key) source_db w1 = (Inr sid, w2)"
      by simp
    obtain r3 w3 where d: "get_database_id (APIClient g api_key) dest_db w2 = (r3, w3)"
      by (cases "get_database_id (APIClient g api_key) dest_db w2")
    show ?thesis
    proof (cases r3)
      case (Inl e)
      with d have "get_database_id (APIClient g api_key) dest_db w2 = (Inl e, w3)" by simp
      from transfer_table_dest_unresolved [OF n s' this] show ?thesis
        by (simp add: calls_of_def)
    next
      case (Inr did)
      with d have d': "get_database_id (APIClient g api_key) dest_db w2 = (Inr did, w3)"
        by simp
      let ?src = "[(''remote_host_id'', PyInt sid),
                   (''credential_id'', chosen_credential (APIClient g api_key) scred)]"
      let ?dst = "[(''remote_host_id'', PyInt did),
                   (''credential_id'', chosen_credential (APIClient g api_key) dcred)]"
      obtain r4 w4 where p: "imports_post (APIClient g api_key) name ''Dbsync'' True ?src ?dst w3
                               = (r4, w4)"
        by (cases "imports_post (APIClient g api_key) name ''Dbsync'' True ?src ?dst w3")
      show ?thesis
      proof (cases r4)
        case (Inl e)
        with p show ?thesis
          unfolding transfer_table_run [OF n s' d'] Let_def calls_of_def
          by (intro exI [of _ name] exI [of _ sid] exI [of _ did]) simp
      next
        case (Inr job_id)
        note job = this
        obtain r5 w5 where c: "imports_post_syncs (APIClient g api_key) job_id
            [(''path'', PyStr source_table)] [(''path'', PyStr dest_table)] ao w4 = (r5, w5)"
          by (cases "imports_post_syncs (APIClient g api_key) job_id
            [(''path'', PyStr source_table)] [(''path'', PyStr dest_table)] ao w4")
        show ?thesis
        proof (cases r5)
          case (Inl e)
          with p job c show ?thesis
            unfolding transfer_table_run [OF n s' d'] Let_def calls_of_def
            by (intro exI [of _ name] exI [of _ sid] exI [of _ did] exI [of _ job_id]) simp
        next
          case (Inr u)
          with p job c show ?thesis
            unfolding transfer_table_run [OF n s' d'] Let_def calls_of_def
            by (intro exI [of _ name] exI [of _ sid] exI [of _ did] exI [of _ job_id])
               (simp split: prod.splits sum.splits)
        qed
      qed
    qed
  qed
qed

lemma filter_reads [simp]: "filter is_submission (reads_for cred) = []"
  by (simp add: reads_for_def)

lemma transfer_table_creates_job:
  assumes n: "maybe_get_random_name g job_name v = (name, v1)"
    and s: "get_database_id (APIClient g api_key) source_db v1 = (Inr sid, v2)"
    and d: "get_database_id (APIClient g api_key) dest_db v2 = (Inr did, v3)"
  shows "\<exists>rest. filter is_submission
              (calls_of (transfer_table g source_db dest_db source_table dest_table job_name
                 api_key scred dcred ival ao (v, [])))
            = ImportsPost name ''Dbsync'' True
                [(''remote_host_id'', PyInt sid),
                 (''credential_id'', chosen_credential (APIClient g api_key) scred)]
                [(''remote_host_id'', PyInt did),
                 (''credential_id'', chosen_credential (APIClient g api_key) dcred)]
              # rest"
proof -
  let ?run = "transfer_table g source_db dest_db source_table dest_table job_name
                 api_key scred dcred ival ao (v, [])"
  let ?post = "ImportsPost name ''Dbsync'' True
                [(''remote_host_id'', PyInt sid),
                 (''credential_id'', chosen_credential (APIClient g api_key) scred)]
                [(''remote_host_id'', PyInt did),
                 (''credential_id'', chosen_credential (APIClient g api_key) dcred)]"
  have "\<exists>rest. calls_of ?run = reads_for scred @ reads_for dcred
          @ [GetDatabaseId source_db, GetDatabaseId dest_db] @ ?post # rest
          \<and> (\<forall>c \<in> set rest. is_submission c)"
    unfolding transfer_table_run [OF n s d] Let_def calls_of_def
    by (simp split: prod.split sum.split)
  then obtain rest where "calls_of ?run = reads_for scred @ reads_for dcred
          @ [GetDatabaseId source_db, GetDatabaseId dest_db] @ ?post # rest"
    and "\<forall>c \<in> set rest. is_submission c"
    by blast
  then have "filter is_submission (calls_of ?run) = ?post # rest"
    by simp
  then show ?thesis by blast
qed

lemma count_reads_for [simp]:
  "count_list (reads_for cred) DefaultCredential = (if truthy cred then 0 else 1)"
  by (simp add: reads_for_def)

lemma syncs_in_reads_for [simp]: "ImportsPostSyncs i s d a \<notin> set (reads_for cred)"
  by (simp add: reads_for_def)

lemma transfer_table_reads:
  "credential_reads (calls_of (transfer_table g source_db dest_db source_table dest_table
      job_name api_key scred dcred ival ao (w, [])))
   = (if truthy scred then 0 else 1) + (if truthy dcred then 0 else 1)"
proof -
  from transfer_table_calls_shape [of g source_db dest_db source_table dest_table job_name
      api_key scred dcred ival ao w]
  obtain rest where
    c: "calls_of (transfer_table g source_db dest_db source_table dest_table job_name api_key
        scred dcred ival ao (w, []))
     = reads_for scred @ reads_for dcred @ GetDatabaseId source_db # rest"
    and r: "count_list rest DefaultCredential = 0"
    by (elim exE conjE) (simp, (elim disjE; simp))
  show ?thesis
    unfolding credential_reads_def c by (simp add: r)
qed

lemma transfer_table_syncs_options:
  assumes "ImportsPostSyncs i s d a \<in> set (calls_of (transfer_table g source_db dest_db
      source_table dest_table job_name api_key scred dcred ival ao (w, [])))"
  shows "a = ao"
proof -
  from transfer_table_calls_shape [of g source_db dest_db source_table dest_table job_name
      api_key scred dcred ival ao w]
  obtain rest where
    c: "calls_of (transfer_table g source_db dest_db source_table dest_table job_name api_key
        scred dcred ival ao (w, []))
     = reads_for scred @ reads_for dcred @ GetDatabaseId source_db # rest"
    and r: "ImportsPostSyncs i s d a \<in> set rest \<longrightarrow> a = ao"
    by (elim exE conjE) (simp, (elim disjE; simp))
  from assms show ?thesis
    unfolding c using r by simp
qed

section \<open>Options and credentials\<close>

text \<open>
  C8. The mapping of advanced options given to \<^verbatim>\<open>transfer_table\<close> reaches
  \<^verbatim>\<open>imports.post_syncs\<close> as it is: whatever the run, a configure-sync call it issues
  carries exactly the mapping passed in; and once the job has been created the call is
  issued with that mapping, whatever its keys and values are, since no step before it
  reads the mapping.
\<close>

theorem advanced_options_forwarded_verbatim:
  "(\<forall>i s d a.
      ImportsPostSyncs i s d a \<in> set (calls_of (transfer_table g source_db dest_db source_table
          dest_table job_name api_key source_credential_id dest_credential_id ival
          advanced_options (w, [])))
      \<longrightarrow> a = advanced_options)
   \<and> (maybe_get_random_name g job_name w = (name, w1)
      \<and> get_database_id (APIClient g api_key) source_db w1 = (Inr sid, w2)
      \<and> get_database_id (APIClient g api_key) dest_db w2 = (Inr did, w3)
      \<and> imports_post (APIClient g api_key) name ''Dbsync'' True
            [(''remote_host_id'', PyInt sid),
             (''credential_id'', chosen_credential (APIClient g api_key) source_credential_id)]
            [(''remote_host_id'', PyInt did),
             (''credential_id'', chosen_credential (APIClient g api_key) dest_credential_id)]
            w3 = (Inr job_id, w4)
      \<longrightarrow> ImportsPostSyncs job_id [(''path'', PyStr source_table)]
            [(''path'', PyStr dest_table)] advanced_options
          \<in> set (calls_of (transfer_table g source_db dest_db source_table dest_table job_name
                api_key source_credential_id dest_credential_id ival advanced_options (w, []))))"
proof (intro conjI allI impI)
  fix i s d a
  assume "ImportsPostSyncs i s d a \<in> set (calls_of (transfer_table g source_db dest_db
    source_table dest_table job_name api_key source_credential_id dest_credential_id ival
    advanced_options (w, [])))"
  then show "a = advanced_options"
    by (rule transfer_table_syncs_options)
next
  assume "maybe_get_random_name g job_name w = (name, w1)
      \<and> get_database_id (APIClient g api_key) source_db w1 = (Inr sid, w2)
      \<and> get_database_id (APIClient g api_key) dest_db w2 = (Inr did, w3)
      \<and> imports_post (APIClient g api_key) name ''Dbsync'' True
            [(''remote_host_id'', PyInt sid),
             (''credential_id'', chosen_credential (APIClient g api_key) source_credential_id)]
            [(''remote_host_id'', PyInt did),
             (''credential_id'', chosen_credential (APIClient g api_key) dest_credential_id)]
            w3 = (Inr job_id, w4)"
  then have n: "maybe_get_random_name g job_name w = (name, w1)"
    and s: "get_database_id (APIClient g api_key) source_db w1 = (Inr sid, w2)"
    and d: "get_database_id (APIClient g api_key) dest_db w2 = (Inr did, w3)"
    and p: "imports_post (APIClient g api_key) name ''Dbsync'' True
            [(''remote_host_id'', PyInt sid),
             (''credential_id'', chosen_credential (APIClient g api_key) source_credential_id)]
            [(''remote_host_id'', PyInt did),
             (''credential_id'', chosen_credential (APIClient g api_key) dest_credential_id)]
            w3 = (Inr job_id, w4)"
    by simp_all
  show "ImportsPostSyncs job_id [(''path'', PyStr source_table)]
            [(''path'', PyStr dest_table)] advanced_options
          \<in> set (calls_of (transfer_table g source_db dest_db source_table dest_table job_name
                api_key source_credential_id dest_credential_id ival advanced_options (w, [])))"
    unfolding transfer_table_run [OF n s d] Let_def calls_of_def p
    by (simp split: prod.split sum.split)
qed

theorem advanced_options_forwarded_verbatim_witness:
  "maybe_get_random_name (stub_globals None) None 0 = (''4f1c9e'', 0)
   \<and> get_database_id (APIClient (stub_globals None) None) (PyStr ''warehouse'') 0 = (Inr 7, 1)
   \<and> get_database_id (APIClient (stub_globals None) None) (PyStr ''lake'') 1 = (Inr 8, 2)
   \<and> imports_post (APIClient (stub_globals None) None) ''4f1c9e'' ''Dbsync'' True
         [(''remote_host_id'', PyInt 7),
          (''credential_id'', chosen_credential (APIClient (stub_globals None) None) PyNone)]
         [(''remote_host_id'', PyInt 8),
          (''credential_id'', chosen_credential (APIClient (stub_globals None) None) PyNone)]
         2 = (Inr 601, 3)
   \<and> ImportsPostSyncs 601 [(''path'', PyStr ''public.src'')] [(''path'', PyStr ''public.dst'')]
         [(''max_errors'', PyInt 3), (''truncate'', PyStr ''yes''), (''limit'', PyNone)]
       \<in> set (calls_of (transfer_table (stub_globals None) (PyStr ''warehouse'') (PyStr ''lake'')
            ''public.src'' ''public.dst'' None None PyNone PyNone None
            [(''max_errors'', PyInt 3), (''truncate'', PyStr ''yes''), (''limit'', PyNone)]
            (0, [])))"
proof -
  have p: "imports_post (APIClient (stub_globals None) None) ''4f1c9e'' ''Dbsync'' True
         [(''remote_host_id'', PyInt 7),
          (''credential_id'', chosen_credential (APIClient (stub_globals None) None) PyNone)]
         [(''remote_host_id'', PyInt 8),
          (''credential_id'', chosen_credential (APIClient (stub_globals None) None) PyNone)]
         2 = (Inr 601, 3)"
    by (simp add: stub_defs)
  from advanced_options_forwarded_verbatim [where g = "stub_globals None" and api_key = None
      and job_name = None and w = 0 and name = "''4f1c9e''" and ?w1.0 = 0
      and source_db = "PyStr ''warehouse''" and sid = 7 and ?w2.0 = 1
      and dest_db = "PyStr ''lake''" and did = 8 and ?w3.0 = 2
      and source_credential_id = PyNone and dest_credential_id = PyNone
      and job_id = 601 and ?w4.0 = 3 and source_table = "''public.src''"
      and dest_table = "''public.dst''" and ival = None
      and advanced_options =
        "[(''max_errors'', PyInt 3), (''truncate'', PyStr ''yes''), (''limit'', PyNone)]"]
    p stub_name [of None] stub_source [of None] stub_dest [of None]
  show ?thesis by simp
qed

text \<open>
  C9. The default credential replaces every falsy credential, not only an omitted one:
  \<^verbatim>\<open>None\<close>, \<^verbatim>\<open>0\<close> and the empty string are falsy; with a falsy \<^verbatim>\<open>credential_id\<close>,
  \<^verbatim>\<open>query_civis\<close> posts the query with the default credential; and \<^verbatim>\<open>transfer_table\<close>
  creates the job with, on each side independently, the credential given when it is
  truthy and the default credential otherwise.
\<close>

theorem credential_defaults_on_falsy:
  "\<not> truthy PyNone \<and> \<not> truthy (PyInt 0) \<and> \<not> truthy (PyStr [])
   \<and> (\<not> truthy credential_id
      \<and> get_database_id (APIClient g api_key) database w = (Inr dbid, w1)
      \<longrightarrow> filter is_submission
            (calls_of (query_civis g sql database api_key credential_id preview_rows_arg ival
               (w, [])))
          = [QueriesPost dbid sql (case preview_rows_arg of None \<Rightarrow> 10 | Some n \<Rightarrow> n)
               (default_credential (APIClient g api_key))])
   \<and> (maybe_get_random_name g job_name v = (name, v1)
      \<and> get_database_id (APIClient g api_key) source_db v1 = (Inr sid, v2)
      \<and> get_database_id (APIClient g api_key) dest_db v2 = (Inr did, v3)
      \<longrightarrow> (\<exists>rest.
            filter is_submission
              (calls_of (transfer_table g source_db dest_db source_table dest_table job_name
                 api_key source_credential_id dest_credential_id ival advanced_options (v, [])))
            = ImportsPost name ''Dbsync'' True
                [(''remote_host_id'', PyInt sid),
                 (''credential_id'',
                    if truthy source_credential_id then source_credential_id
                    else default_credential (APIClient g api_key))]
                [(''remote_host_id'', PyInt did),
                 (''credential_id'',
                    if truthy dest_credential_id then dest_credential_id
                    else default_credential (APIClient g api_key))]
              # rest))"
proof -
  have falsy: "\<not> truthy PyNone" "\<not> truthy (PyInt 0)" "\<not> truthy (PyStr [])"
    by simp_all
  have query: "filter is_submission
            (calls_of (query_civis g sql database api_key credential_id preview_rows_arg ival
               (w, [])))
          = [QueriesPost dbid sql (case preview_rows_arg of None \<Rightarrow> 10 | Some n \<Rightarrow> n)
               (default_credential (APIClient g api_key))]"
    if "\<not> truthy credential_id"
      and h: "get_database_id (APIClient g api_key) database w = (Inr dbid, w1)"
    unfolding query_civis_run [OF h] Let_def calls_of_def
    using that(1) by (simp add: chosen_credential_def split: prod.split sum.split)
  have transfer: "\<exists>rest.
            filter is_submission
              (calls_of (transfer_table g source_db dest_db source_table dest_table job_name
                 api_key source_credential_id dest_credential_id ival advanced_options (v, [])))
            = ImportsPost name ''Dbsync'' True
                [(''remote_host_id'', PyInt sid),
                 (''credential_id'',
                    if truthy source_credential_id then source_credential_id
                    else default_credential (APIClient g api_key))]
                [(''remote_host_id'', PyInt did),
                 (''credential_id'',
                    if truthy dest_credential_id then dest_credential_id
                    else default_credential (APIClient g api_key))]
              # rest"
    if "maybe_get_random_name g job_name v = (name, v1)"
      and "get_database_id (APIClient g api_key) source_db v1 = (Inr sid, v2)"
      and "get_database_id (APIClient g api_key) dest_db v2 = (Inr did, v3)"
    using transfer_table_creates_job [OF that, of source_table dest_table
        source_credential_id dest_credential_id ival advanced_options]
    unfolding chosen_credential_def .
  from falsy query transfer show ?thesis by blast
qed

theorem credential_defaults_on_falsy_witness:
  "\<not> truthy (PyInt 0)
   \<and> get_database_id (APIClient (stub_globals None) None) (PyStr ''warehouse'') 0 = (Inr 7, 1)
   \<and> filter is_submission
        (calls_of (query_civis (stub_globals None) ''SELECT 1'' (PyStr ''warehouse'') None
           (PyInt 0) None None (0, [])))
      = [QueriesPost 7 ''SELECT 1'' 10 (PyInt 42)]
   \<and> maybe_get_random_name (stub_globals None) None 0 = (''4f1c9e'', 0)
   \<and> get_database_id (APIClient (stub_globals None) None) (PyStr ''lake'') 1 = (Inr 8, 2)
   \<and> (\<exists>rest.
         filter is_submission
           (calls_of (transfer_table (stub_globals None) (PyStr ''warehouse'') (PyStr ''lake'')
              ''public.src'' ''public.dst'' None None (PyStr []) (PyInt 0) None [] (0, [])))
         = ImportsPost ''4f1c9e'' ''Dbsync'' True
             [(''remote_host_id'', PyInt 7), (''credential_id'', PyInt 42)]
             [(''remote_host_id'', PyInt 8), (''credential_id'', PyInt 42)]
           # rest)"
proof -
  have dc: "default_credential (APIClient (stub_globals None) None) = PyInt 42"
    by (simp add: stub_defs)
  from credential_defaults_on_falsy [where g = "stub_globals None" and api_key = None
      and credential_id = "PyInt 0" and database = "PyStr ''warehouse''" and w = 0
      and dbid = 7 and ?w1.0 = 1 and sql = "''SELECT 1''" and preview_rows_arg = None
      and ival = None and job_name = None and v = 0 and name = "''4f1c9e''" and ?v1.0 = 0
      and source_db = "PyStr ''warehouse''" and sid = 7 and ?v2.0 = 1
      and dest_db = "PyStr ''lake''" and did = 8 and ?v3.0 = 2
      and source_table = "''public.src''" and dest_table = "''public.dst''"
      and source_credential_id = "PyStr []" and dest_credential_id = "PyInt 0"
      and advanced_options = "[]"]
    dc stub_name [of None] stub_source [of None] stub_dest [of None]
  show ?thesis by simp
qed

section \<open>Polling\<close>

lemma poll_once_settled:
  "last_status fut = Some snap \<Longrightarrow> terminal snap \<Longrightarrow> poll_once fut s = (Inr (snap, fut), s)"
  by (simp add: poll_once_def returns_def)

lemma probe_once_result:
  "probe_once fut s = (Inr (snap, fut'), s') \<Longrightarrow> fut' = fut\<lparr>last_status := Some snap\<rparr>"
  by (auto simp: probe_once_def and_then_def returns_def split: prod.splits sum.splits)

lemma poll_once_caches:
  "poll_once fut s = (Inr (snap, fut'), s') \<Longrightarrow> last_status fut' = Some snap"
  by (auto simp: poll_once_def returns_def dest!: probe_once_result
      split: option.splits if_splits)

lemma poll_once_keeps_probe:
  "poll_once fut s = (Inr (snap, fut'), s') \<Longrightarrow>
     poller fut' = poller fut \<and> poller_args fut' = poller_args fut
     \<and> polling_interval fut' = polling_interval fut"
  by (auto simp: poll_once_def returns_def dest!: probe_once_result
      split: option.splits if_splits)

lemma result_settled:
  "last_status fut = Some snap \<Longrightarrow> terminal snap \<Longrightarrow> result fut s = Some (Inr (snap, fut), s)"
  by (subst result.simps) (simp add: poll_once_settled)

lemma is_done_settled: "last_status fut = Some snap \<Longrightarrow> terminal snap \<Longrightarrow> is_done fut"
  by (simp add: is_done_def)

lemma result_returns_terminal:
  assumes "result fut0 s0 = Some y"
  shows "\<forall>snap fut s1. y = (Inr (snap, fut), s1) \<longrightarrow> terminal snap \<and> last_status fut = Some snap"
proof (rule result.raw_induct
    [where P = "\<lambda>f s y. \<forall>snap fut s1. y = (Inr (snap, fut), s1)
                   \<longrightarrow> terminal snap \<and> last_status fut = Some snap", OF _ assms])
  fix res :: "('a, 'b) pollable \<Rightarrow> 'a state
                \<Rightarrow> ((exn + snapshot \<times> ('a, 'b) pollable) \<times> 'a state) option"
    and fut s y
  assume IH: "\<And>f s y. res f s = Some y \<Longrightarrow>
      \<forall>snap fut s1. y = (Inr (snap, fut), s1) \<longrightarrow> terminal snap \<and> last_status fut = Some snap"
    and step: "(case poll_once fut s of
        (Inl e, s') \<Rightarrow> Some (Inl e, s')
      | (Inr (snap, fut'), s') \<Rightarrow>
          if terminal snap then Some (Inr (snap, fut'), s')
          else res fut' (sleep (polling_interval fut') s')) = Some y"
  obtain r s' where p: "poll_once fut s = (r, s')" by (cases "poll_once fut s")
  show "\<forall>snap fut s1. y = (Inr (snap, fut), s1) \<longrightarrow> terminal snap \<and> last_status fut = Some snap"
  proof (cases r)
    case (Inl e)
    with p step show ?thesis by auto
  next
    case (Inr pr)
    obtain snap fut' where pr: "pr = (snap, fut')" by (cases pr)
    show ?thesis
    proof (cases "terminal snap")
      case True
      with p Inr pr step poll_once_caches [of fut s snap fut' s'] show ?thesis by auto
    next
      case False
      with p Inr pr step have "res fut' (sleep (polling_interval fut') s') = Some y" by simp
      then show ?thesis by (rule IH)
    qed
  qed
qed

text \<open>A probe is quiet when it never reads the default credential.\<close>

lemma returns_calls: "calls_of (and_then m (\<lambda>x. returns (f x)) s) = calls_of (m s)"
  by (simp add: and_then_def returns_def calls_of_def split: prod.splits sum.splits)

lemma poll_once_quiet:
  assumes "\<And>s. credential_reads (calls_of (poller fut (poller_args fut) s))
                  = credential_reads (snd s)"
  shows "credential_reads (calls_of (poll_once fut s)) = credential_reads (snd s)"
proof -
  have "calls_of (probe_once fut s) = calls_of (poller fut (poller_args fut) s)"
    unfolding probe_once_def by (rule returns_calls)
  with assms have "credential_reads (calls_of (probe_once fut s)) = credential_reads (snd s)"
    by simp
  then show ?thesis
    by (simp add: poll_once_def returns_def calls_of_def split: option.splits)
qed

lemma sleep_reads: "credential_reads (snd (sleep t s)) = credential_reads (snd s)"
  by (simp add: sleep_def credential_reads_def)

lemma result_quiet:
  assumes run: "result fut0 s0 = Some y"
    and quiet: "\<And>s. credential_reads (calls_of (poller fut0 (poller_args fut0) s))
                  = credential_reads (snd s)"
  shows "credential_reads (calls_of y) = credential_reads (snd s0)"
proof -
  have "poller fut0 = poller fut0 \<and> poller_args fut0 = poller_args fut0
          \<longrightarrow> credential_reads (calls_of y) = credential_reads (snd s0)"
  proof (rule result.raw_induct
      [where P = "\<lambda>f s y. poller f = poller fut0 \<and> poller_args f = poller_args fut0
                     \<longrightarrow> credential_reads (calls_of y) = credential_reads (snd s)", OF _ run])
    fix res :: "('a, 'b) pollable \<Rightarrow> 'a state
                  \<Rightarrow> ((exn + snapshot \<times> ('a, 'b) pollable) \<times> 'a state) option"
      and fut s y
    assume IH: "\<And>f s y. res f s = Some y \<Longrightarrow>
        poller f = poller fut0 \<and> poller_args f = poller_args fut0
          \<longrightarrow> credential_reads (calls_of y) = credential_reads (snd s)"
      and step: "(case poll_once fut s of
          (Inl e, s') \<Rightarrow> Some (Inl e, s')
        | (Inr (snap, fut'), s') \<Rightarrow>
            if terminal snap then Some (Inr (snap, fut'), s')
            else res fut' (sleep (polling_interval fut') s')) = Some y"
    show "poller fut = poller fut0 \<and> poller_args fut = poller_args fut0
            \<longrightarrow> credential_reads (calls_of y) = credential_reads (snd s)"
    proof
      assume same: "poller fut = poller fut0 \<and> poller_args fut = poller_args fut0"
      with quiet have q: "\<And>s. credential_reads (calls_of (poller fut (poller_args fut) s))
                  = credential_reads (snd s)"
        by simp
      obtain r s' where p: "poll_once fut s = (r, s')" by (cases "poll_once fut s")
      from poll_once_quiet [of fut s, OF q] p
      have s': "credential_reads (snd s') = credential_reads (snd s)"
        by (simp add: calls_of_def)
      show "credential_reads (calls_of y) = credential_reads (snd s)"
      proof (cases r)
        case (Inl e)
        with p step have "y = (Inl e, s')" by simp
        with s' show ?thesis by (simp add: calls_of_def)
      next
        case (Inr pr)
        obtain snap fut' where pr: "pr = (snap, fut')" by (cases pr)
        show ?thesis
        proof (cases "terminal snap")
          case True
          with p Inr pr step have "y = (Inr (snap, fut'), s')" by simp
          with s' show ?thesis by (simp add: calls_of_def)
        next
          case False
          with p Inr pr step have "res fut' (sleep (polling_interval fut') s') = Some y"
            by simp
          from IH [OF this] poll_once_keeps_probe [of fut s snap fut' s'] p Inr pr same
          have "credential_reads (calls_of y)
                  = credential_reads (snd (sleep (polling_interval fut') s'))"
            by simp
          with s' show ?thesis by (simp add: sleep_reads)
        qed
      qed
    qed
  qed
  then show ?thesis by simp
qed

lemma queries_get_quiet:
  "credential_reads (calls_of (call_queries_get c i s)) = credential_reads (snd s)"
  by (cases s)
     (simp add: call_queries_get_def remote_def calls_of_def credential_reads_def
       split: prod.splits)

lemma imports_get_files_runs_quiet:
  "credential_reads (calls_of (call_imports_get_files_runs c args s)) = credential_reads (snd s)"
  by (cases s)
     (simp add: call_imports_get_files_runs_def remote_def calls_of_def credential_reads_def
       split: prod.splits)

lemma query_civis_poller:
  "query_civis g sql database api_key cred pr ival s = (Inr fut, s') \<Longrightarrow>
     poller fut = call_queries_get (APIClient g api_key)"
  by (auto simp: query_civis_def Let_def and_then_def returns_def PollableResult_def
      split: prod.splits sum.splits)

lemma transfer_table_poller:
  "transfer_table g source_db dest_db source_table dest_table job_name api_key scred dcred
      ival ao s = (Inr fut, s') \<Longrightarrow>
     poller fut = call_imports_get_files_runs (APIClient g api_key)"
  by (auto simp: transfer_table_def Let_def and_then_def returns_def PollableResult_def
      split: prod.splits sum.splits)

lemma stub_result_run:
  "result (PollableResult (call_queries_get (stub_client None)) 501 2) (2, tr)
   = Some (Inr (\<lparr>snap_state = Succeeded, snap_payload = ''rows''\<rparr>,
               (PollableResult (call_queries_get (stub_client None)) 501 2)
                 \<lparr>last_status := Some \<lparr>snap_state = Succeeded, snap_payload = ''rows''\<rparr>\<rparr>),
           (5, tr @ [QueriesGet 501, Sleep 2, QueriesGet 501, Sleep 2, QueriesGet 501]))"
  apply (subst result.simps)
  apply (simp add: poll_once_def probe_once_def and_then_def returns_def PollableResult_def
      call_queries_get_def remote_def terminal_def sleep_def stub_client_def)
  apply (subst result.simps)
  apply (simp add: poll_once_def probe_once_def and_then_def returns_def
      call_queries_get_def remote_def terminal_def sleep_def stub_client_def)
  apply (subst result.simps)
  apply (simp add: poll_once_def probe_once_def and_then_def returns_def
      call_queries_get_def remote_def terminal_def sleep_def stub_client_def)
  done

lemma stub_query_run:
  "query_civis (stub_globals None) ''SELECT 1'' (PyStr ''warehouse'') None PyNone None (Some 2)
     (0, [])
   = (Inr (PollableResult (call_queries_get (stub_client None)) 501 2),
      (2, [GetDatabaseId (PyStr ''warehouse''), DefaultCredential,
           QueriesPost 7 ''SELECT 1'' 10 (PyInt 42)]))"
  unfolding query_civis_run [OF stub_source]
  by (simp add: reads_for_def chosen_credential_def stub_defs)

lemma stub_transfer_success:
  "transfer_table (stub_globals None) (PyStr ''warehouse'') (PyStr ''lake'') ''public.src''
     ''public.dst'' None None PyNone (PyInt 9) None [] (0, [])
   = (Inr (PollableResult (call_imports_get_files_runs (stub_client None)) (601, 901) 15),
      (5, [DefaultCredential, GetDatabaseId (PyStr ''warehouse''), GetDatabaseId (PyStr ''lake''),
           ImportsPost ''4f1c9e'' ''Dbsync'' True
             [(''remote_host_id'', PyInt 7), (''credential_id'', PyInt 42)]
             [(''remote_host_id'', PyInt 8), (''credential_id'', PyInt 9)],
           ImportsPostSyncs 601 [(''path'', PyStr ''public.src'')]
             [(''path'', PyStr ''public.dst'')] [],
           ImportsPostRuns 601]))"
  unfolding stub_transfer_run
  by (simp add: reads_for_def chosen_credential_def stub_defs)

section \<open>Caching of the terminal snapshot\<close>

text \<open>
  C2. Once a pollable result has observed a terminal snapshot, through "poll once" or
  through the blocking "result", every later "poll once" and "result" returns that same
  snapshot and leaves the future and the state as they are, so that no probe is invoked
  (a probe would add a call to the state); "done" answers from the cached snapshot and
  invokes no probe either. The statement holds for every future, hence for those
  returned by \<^verbatim>\<open>query_civis\<close> and \<^verbatim>\<open>transfer_table\<close>.
\<close>

theorem terminal_snapshot_is_cached:
  assumes "(poll_once fut0 s0 = (Inr (snap, fut), s1) \<and> terminal snap)
           \<or> result fut0 s0 = Some (Inr (snap, fut), s1)"
  shows "poll_once fut s = (Inr (snap, fut), s)
         \<and> result fut s = Some (Inr (snap, fut), s)
         \<and> is_done fut
         \<and> last_status fut = Some snap"
proof -
  from assms have settled: "terminal snap \<and> last_status fut = Some snap"
  proof
    assume "poll_once fut0 s0 = (Inr (snap, fut), s1) \<and> terminal snap"
    then show ?thesis by (auto dest: poll_once_caches)
  next
    assume "result fut0 s0 = Some (Inr (snap, fut), s1)"
    from result_returns_terminal [OF this] show ?thesis by simp
  qed
  then show ?thesis
    by (simp add: poll_once_settled result_settled is_done_settled)
qed

theorem terminal_snapshot_is_cached_witness:
  "result (PollableResult (call_queries_get (stub_client None)) 501 2) (2, [])
   = Some (Inr (\<lparr>snap_state = Succeeded, snap_payload = ''rows''\<rparr>,
               (PollableResult (call_queries_get (stub_client None)) 501 2)
                 \<lparr>last_status := Some \<lparr>snap_state = Succeeded, snap_payload = ''rows''\<rparr>\<rparr>),
           (5, [QueriesGet 501, Sleep 2, QueriesGet 501, Sleep 2, QueriesGet 501]))
   \<and> poll_once
        ((PollableResult (call_queries_get (stub_client None)) 501 2)
           \<lparr>last_status := Some \<lparr>snap_state = Succeeded, snap_payload = ''rows''\<rparr>\<rparr>)
        (5, [QueriesGet 501, Sleep 2, QueriesGet 501, Sleep 2, QueriesGet 501])
     = (Inr (\<lparr>snap_state = Succeeded, snap_payload = ''rows''\<rparr>,
             (PollableResult (call_queries_get (stub_client None)) 501 2)
               \<lparr>last_status := Some \<lparr>snap_state = Succeeded, snap_payload = ''rows''\<rparr>\<rparr>),
        (5, [QueriesGet 501, Sleep 2, QueriesGet 501, Sleep 2, QueriesGet 501]))
   \<and> result
        ((PollableResult (call_queries_get (stub_client None)) 501 2)
           \<lparr>last_status := Some \<lparr>snap_state = Succeeded, snap_payload = ''rows''\<rparr>\<rparr>)
        (5, [QueriesGet 501, Sleep 2, QueriesGet 501, Sleep 2, QueriesGet 501])
     = Some (Inr (\<lparr>snap_state = Succeeded, snap_payload = ''rows''\<rparr>,
             (PollableResult (call_queries_get (stub_client None)) 501 2)
               \<lparr>last_status := Some \<lparr>snap_state = Succeeded, snap_payload = ''rows''\<rparr>\<rparr>),
        (5, [QueriesGet 501, Sleep 2, QueriesGet 501, Sleep 2, QueriesGet 501]))
   \<and> is_done
        ((PollableResult (call_queries_get (stub_client None)) 501 2)
           \<lparr>last_status := Some \<lparr>snap_state = Succeeded, snap_payload = ''rows''\<rparr>\<rparr>)"
proof -
  have r: "result (PollableResult (call_queries_get (stub_client None)) 501 2) (2, [])
   = Some (Inr (\<lparr>snap_state = Succeeded, snap_payload = ''rows''\<rparr>,
               (PollableResult (call_queries_get (stub_client None)) 501 2)
                 \<lparr>last_status := Some \<lparr>snap_state = Succeeded, snap_payload = ''rows''\<rparr>\<rparr>),
           (5, [QueriesGet 501, Sleep 2, QueriesGet 501, Sleep 2, QueriesGet 501]))"
    using stub_result_run [of "[]"] by simp
  from terminal_snapshot_is_cached [OF disjI2 [OF r],
      of "(5, [QueriesGet 501, Sleep 2, QueriesGet 501, Sleep 2, QueriesGet 501])"] r
  show ?thesis by blast
qed

section \<open>Reads of the default credential\<close>

text \<open>
  C7, as stated, fails: a \<^verbatim>\<open>transfer_table\<close> call that omits both credentials reads
  \<^verbatim>\<open>client.default_credential\<close> twice, once for each side.
\<close>

theorem default_credential_read_twice_counterexample:
  "credential_reads
     (calls_of (transfer_table (stub_globals None) (PyStr ''warehouse'') (PyStr ''lake'')
        ''public.src'' ''public.dst'' None None PyNone PyNone None [] (0, []))) = 2"
  by (simp add: transfer_table_reads)

text \<open>
  C7, amended. The default credential is read at submission time only: by
  \<^verbatim>\<open>query_civis\<close> exactly once when its credential is omitted (falsy) and the database
  has resolved, and not at all when a credential is given; by \<^verbatim>\<open>transfer_table\<close> once
  for each side whose credential is omitted, so twice when both are. Polling the future
  either function returns, with "poll once" or with the blocking "result", never reads it.
\<close>

theorem default_credential_read_at_submission_only:
  "(get_database_id (APIClient g api_key) database w = (Inr dbid, w1)
      \<longrightarrow> credential_reads
            (calls_of (query_civis g sql database api_key credential_id preview_rows_arg ival
               (w, [])))
          = (if truthy credential_id then 0 else 1))
   \<and> credential_reads
        (calls_of (transfer_table g source_db dest_db source_table dest_table job_name api_key
           source_credential_id dest_credential_id ival advanced_options (v, [])))
      = (if truthy source_credential_id then 0 else 1)
        + (if truthy dest_credential_id then 0 else 1)
   \<and> (query_civis g sql database api_key credential_id preview_rows_arg ival (w, [])
        = (Inr qfut, qs)
      \<longrightarrow> credential_reads (calls_of (poll_once qfut s)) = credential_reads (snd s)
        \<and> (result qfut s = Some r \<longrightarrow> credential_reads (calls_of r) = credential_reads (snd s)))
   \<and> (transfer_table g source_db dest_db source_table dest_table job_name api_key
          source_credential_id dest_credential_id ival advanced_options (v, [])
        = (Inr tfut, ts)
      \<longrightarrow> credential_reads (calls_of (poll_once tfut t)) = credential_reads (snd t)
        \<and> (result tfut t = Some r' \<longrightarrow> credential_reads (calls_of r') = credential_reads (snd t)))"
proof (intro conjI impI)
  assume h: "get_database_id (APIClient g api_key) database w = (Inr dbid, w1)"
  show "credential_reads
            (calls_of (query_civis g sql database api_key credential_id preview_rows_arg ival
               (w, [])))
          = (if truthy credential_id then 0 else 1)"
    unfolding query_civis_run [OF h] Let_def calls_of_def credential_reads_def
    by (simp split: prod.split sum.split)
next
  show "credential_reads
        (calls_of (transfer_table g source_db dest_db source_table dest_table job_name api_key
           source_credential_id dest_credential_id ival advanced_options (v, [])))
      = (if truthy source_credential_id then 0 else 1)
        + (if truthy dest_credential_id then 0 else 1)"
    by (rule transfer_table_reads)
next
  assume q: "query_civis g sql database api_key credential_id preview_rows_arg ival (w, [])
        = (Inr qfut, qs)"
  from query_civis_poller [OF q]
  have quiet: "\<And>s. credential_reads (calls_of (poller qfut (poller_args qfut) s))
                  = credential_reads (snd s)"
    by (simp add: queries_get_quiet)
  show "credential_reads (calls_of (poll_once qfut s)) = credential_reads (snd s)"
    by (rule poll_once_quiet [OF quiet])
  assume "result qfut s = Some r"
  then show "credential_reads (calls_of r) = credential_reads (snd s)"
    by (rule result_quiet [OF _ quiet])
next
  assume q: "transfer_table g source_db dest_db source_table dest_table job_name api_key
          source_credential_id dest_credential_id ival advanced_options (v, [])
        = (Inr tfut, ts)"
  from transfer_table_poller [OF q]
  have quiet: "\<And>s. credential_reads (calls_of (poller tfut (poller_args tfut) s))
                  = credential_reads (snd s)"
    by (simp add: imports_get_files_runs_quiet)
  show "credential_reads (calls_of (poll_once tfut t)) = credential_reads (snd t)"
    by (rule poll_once_quiet [OF quiet])
  assume "result tfut t = Some r'"
  then show "credential_reads (calls_of r') = credential_reads (snd t)"
    by (rule result_quiet [OF _ quiet])
qed

theorem default_credential_read_at_submission_only_witness:
  "get_database_id (APIClient (stub_globals None) None) (PyStr ''warehouse'') 0 = (Inr 7, 1)
   \<and> credential_reads
        (calls_of (query_civis (stub_globals None) ''SELECT 1'' (PyStr ''warehouse'') None
           PyNone None (Some 2) (0, []))) = 1
   \<and> credential_reads
        (calls_of (transfer_table (stub_globals None) (PyStr ''warehouse'') (PyStr ''lake'')
           ''public.src'' ''public.dst'' None None PyNone (PyInt 9) None [] (0, []))) = 1
   \<and> query_civis (stub_globals None) ''SELECT 1'' (PyStr ''warehouse'') None PyNone None
        (Some 2) (0, [])
      = (Inr (PollableResult (call_queries_get (stub_client None)) 501 2),
         (2, [GetDatabaseId (PyStr ''warehouse''), DefaultCredential,
              QueriesPost 7 ''SELECT 1'' 10 (PyInt 42)]))
   \<and> result (PollableResult (call_queries_get (stub_client None)) 501 2)
        (2, [GetDatabaseId (PyStr ''warehouse''), DefaultCredential,
             QueriesPost 7 ''SELECT 1'' 10 (PyInt 42)])
      = Some (Inr (\<lparr>snap_state = Succeeded, snap_payload = ''rows''\<rparr>,
               (PollableResult (call_queries_get (stub_client None)) 501 2)
                 \<lparr>last_status := Some \<lparr>snap_state = Succeeded, snap_payload = ''rows''\<rparr>\<rparr>),
           (5, [GetDatabaseId (PyStr ''warehouse''), DefaultCredential,
                QueriesPost 7 ''SELECT 1'' 10 (PyInt 42),
                QueriesGet 501, Sleep 2, QueriesGet 501, Sleep 2, QueriesGet 501]))
   \<and> credential_reads
        [GetDatabaseId (PyStr ''warehouse''), DefaultCredential,
         QueriesPost 7 ''SELECT 1'' 10 (PyInt 42),
         QueriesGet 501, Sleep 2, QueriesGet 501, Sleep 2, QueriesGet 501] = 1
   \<and> credential_reads
        (calls_of (poll_once
           (PollableResult (call_imports_get_files_runs (stub_client None)) (601, 901) 15)
           (5, [DefaultCredential]))) = 1"
proof -
  let ?tr = "[GetDatabaseId (PyStr ''warehouse''), DefaultCredential,
              QueriesPost 7 ''SELECT 1'' 10 (PyInt 42)]"
  note res = stub_result_run [of ?tr]
  note inst = default_credential_read_at_submission_only
    [where g = "stub_globals None" and api_key = None and database = "PyStr ''warehouse''"
      and w = 0 and dbid = 7 and ?w1.0 = 1 and sql = "''SELECT 1''" and credential_id = PyNone
      and preview_rows_arg = None and ival = "Some 2"
      and qfut = "PollableResult (call_queries_get (stub_client None)) 501 2"
      and qs = "(2, ?tr)" and s = "(2, ?tr)"
      and r = "(Inr (\<lparr>snap_state = Succeeded, snap_payload = ''rows''\<rparr>,
               (PollableResult (call_queries_get (stub_client None)) 501 2)
                 \<lparr>last_status := Some \<lparr>snap_state = Succeeded, snap_payload = ''rows''\<rparr>\<rparr>),
           (5, ?tr @ [QueriesGet 501, Sleep 2, QueriesGet 501, Sleep 2, QueriesGet 501]))"]
  have q: "credential_reads
        (calls_of (query_civis (stub_globals None) ''SELECT 1'' (PyStr ''warehouse'') None
           PyNone None (Some 2) (0, []))) = 1"
    and qp: "credential_reads
        [GetDatabaseId (PyStr ''warehouse''), DefaultCredential,
         QueriesPost 7 ''SELECT 1'' 10 (PyInt 42),
         QueriesGet 501, Sleep 2, QueriesGet 501, Sleep 2, QueriesGet 501] = 1"
    using inst [where source_credential_id = PyNone and dest_credential_id = PyNone]
      stub_source [of None] stub_query_run res
    by (simp_all add: calls_of_def credential_reads_def)
  note inst2 = default_credential_read_at_submission_only
    [where g = "stub_globals None" and api_key = None and v = 0
      and source_db = "PyStr ''warehouse''" and dest_db = "PyStr ''lake''"
      and source_table = "''public.src''" and dest_table = "''public.dst''"
      and job_name = None and source_credential_id = PyNone and dest_credential_id = "PyInt 9"
      and ival = None and advanced_options = "[]"
      and tfut = "PollableResult (call_imports_get_files_runs (stub_client None)) (601, 901) 15"
      and t = "(5, [DefaultCredential])"]
  have t: "credential_reads
        (calls_of (transfer_table (stub_globals None) (PyStr ''warehouse'') (PyStr ''lake'')
           ''public.src'' ''public.dst'' None None PyNone (PyInt 9) None [] (0, []))) = 1"
    and tp: "credential_reads
        (calls_of (poll_once
           (PollableResult (call_imports_get_files_runs (stub_client None)) (601, 901) 15)
           (5, [DefaultCredential]))) = 1"
    using inst2 stub_transfer_success
    by (simp_all add: credential_reads_def)
  from q qp t tp stub_source [of None] stub_query_run res show ?thesis
    by simp
qed

end
